theory Spec2Isabelle
  imports Complex_Main "HOL-Library.Word" "HOL-Library.Monad_Syntax"
begin

text \<open>
  A model of \<open>eigen_rigidbody.hpp\<close>: the class \<open>RigidBodyState\<close>, which holds a vector
  of doubles (angular velocity, velocity, chi, position, acceleration), an orientation
  quaternion and a timestamp, with its constructors and methods.  A method that changes
  the object returns the changed state; a failed assertion is the result \<open>None\<close>.
\<close>

section \<open>Double-precision values\<close>

text \<open>
  The values a C++ \<open>double\<close> can hold: a finite number (the real it denotes), the two
  infinities, and not-a-number.  The two zeros are identified and so are the NaN payloads;
  no operation of the header tells them apart.  Which finite reals are representable, and
  how a result is rounded, is not fixed here: the arithmetic the header calls is a
  parameter of the model (record \<open>env\<close> below), so every theorem stated for an arbitrary
  \<open>env\<close> holds whatever the rounding is.
\<close>

datatype double = Finite real | PosInf | NegInf | NaN

text \<open>\<open>isnan(x)\<close> of the C library.\<close>

fun isnan :: "double \<Rightarrow> bool" where
  "isnan NaN = True"
| "isnan _ = False"

text \<open>The comparison \<open>a > b\<close> on doubles: exact, and false as soon as one side is NaN.\<close>

fun dgt :: "double \<Rightarrow> double \<Rightarrow> bool" where
  "dgt NaN _ = False"
| "dgt _ NaN = False"
| "dgt (Finite a) (Finite b) = (b < a)"
| "dgt (Finite a) PosInf = False"
| "dgt (Finite a) NegInf = True"
| "dgt PosInf PosInf = False"
| "dgt PosInf _ = True"
| "dgt NegInf _ = False"

text \<open>\<open>a <= b\<close> on doubles, used only to state what "at most" means.\<close>

fun dle :: "double \<Rightarrow> double \<Rightarrow> bool" where
  "dle NaN _ = False"
| "dle _ NaN = False"
| "dle (Finite a) (Finite b) = (a \<le> b)"
| "dle (Finite a) PosInf = True"
| "dle (Finite a) NegInf = False"
| "dle PosInf PosInf = True"
| "dle PosInf _ = False"
| "dle NegInf _ = True"

text \<open>
  The literal \<open>.000001\<close> of \<open>chiToQuat\<close>: the binary64 number nearest to \<open>10^-6\<close>,
  which is \<open>4722366482869645 * 2^-72\<close> (bit pattern \<open>0x3EB0C6F7A0B5ED8D\<close>).
\<close>

definition chi_tolerance :: double where
  "chi_tolerance = Finite (4722366482869645 / 2 ^ 72)"

section \<open>Vectors, quaternions and the operations the header imports\<close>

type_synonym Vector3d = "double \<times> double \<times> double"

type_synonym Matrix3d = "Vector3d \<times> Vector3d \<times> Vector3d"

text \<open>\<open>Eigen::Quaterniond\<close>, with its four coefficients named as Eigen's accessors.\<close>

datatype Quaterniond = Quaterniond (qw: double) (qx: double) (qy: double) (qz: double)

definition Identity :: Quaterniond where
  "Identity = Quaterniond (Finite 1) (Finite 0) (Finite 0) (Finite 0)"

definition Zero3 :: Vector3d where
  "Zero3 = (Finite 0, Finite 0, Finite 0)"

definition UnitX :: Vector3d where
  "UnitX = (Finite 1, Finite 0, Finite 0)"

definition UnitY :: Vector3d where
  "UnitY = (Finite 0, Finite 1, Finite 0)"

definition UnitZ :: Vector3d where
  "UnitZ = (Finite 0, Finite 0, Finite 1)"

text \<open>
  The header defines no arithmetic of its own: every number it produces comes out of a
  call into Eigen, or into \<open>subtractQuats\<close>, which the header only declares.  These calls
  are the fields of \<open>env\<close>:
  \<^item> \<open>coeff_add\<close>, \<open>coeff_sub\<close>: the double addition and subtraction that
    \<open>VectorXd::operator+=\<close> and \<open>operator-=\<close> apply to each pair of coefficients;
  \<^item> \<open>v_norm\<close>: \<open>Vector3d::norm()\<close>;
  \<^item> \<open>v_div\<close>: a 3-vector divided by a scalar;
  \<^item> \<open>q_of_aa\<close>: the quaternion assigned from \<open>AngleAxisd(angle, axis)\<close>;
  \<^item> \<open>q_mul\<close>: the quaternion product \<open>a * b\<close>;
  \<^item> \<open>q_inverse\<close>: \<open>Quaterniond::inverse()\<close>;
  \<^item> \<open>q_matrix\<close>: \<open>Quaterniond::toRotationMatrix()\<close>;
  \<^item> \<open>m_euler210\<close>: \<open>Matrix3d::eulerAngles(2, 1, 0)\<close>, the only call the header makes;
  \<^item> \<open>subtract_quats\<close>: \<open>eigen_utils::subtractQuats(quat1, quat2)\<close>.
\<close>

record env =
  coeff_add :: "double \<Rightarrow> double \<Rightarrow> double"
  coeff_sub :: "double \<Rightarrow> double \<Rightarrow> double"
  v_norm :: "Vector3d \<Rightarrow> double"
  v_div :: "Vector3d \<Rightarrow> double \<Rightarrow> Vector3d"
  q_of_aa :: "double \<Rightarrow> Vector3d \<Rightarrow> Quaterniond"
  q_mul :: "Quaterniond \<Rightarrow> Quaterniond \<Rightarrow> Quaterniond"
  q_inverse :: "Quaterniond \<Rightarrow> Quaterniond"
  q_matrix :: "Quaterniond \<Rightarrow> Matrix3d"
  m_euler210 :: "Matrix3d \<Rightarrow> Vector3d"
  subtract_quats :: "Quaterniond \<Rightarrow> Quaterniond \<Rightarrow> Vector3d"

section \<open>The class RigidBodyState\<close>

definition angular_velocity_ind :: nat where "angular_velocity_ind = 0"
definition velocity_ind :: nat where "velocity_ind = 3"
definition chi_ind :: nat where "chi_ind = 6"
definition position_ind :: nat where "position_ind = 9"
definition acceleration_ind :: nat where "acceleration_ind = 12"
definition basic_num_states :: nat where "basic_num_states = 15"

text \<open>The three data members, in the order of the class: \<open>quat\<close>, \<open>vec\<close>, \<open>utime\<close>.\<close>

record RigidBodyState =
  quat :: Quaterniond
  vec :: "double list"
  utime :: "64 word"

text \<open>
  \<open>vec.block<3, 1>(i, 0)\<close>, read and written.  Eigen checks that the block lies inside
  the vector and aborts otherwise; \<open>None\<close> is that failed assertion.
\<close>

definition block3 :: "double list \<Rightarrow> nat \<Rightarrow> Vector3d option" where
  "block3 v i = (if i + 3 \<le> length v then Some (v ! i, v ! (i + 1), v ! (i + 2)) else None)"

definition set_block3 :: "double list \<Rightarrow> nat \<Rightarrow> Vector3d \<Rightarrow> double list option" where
  "set_block3 v i b =
     (case b of (b0, b1, b2) \<Rightarrow>
        if i + 3 \<le> length v then Some (v[i := b0, i + 1 := b1, i + 2 := b2]) else None)"

definition chi :: "RigidBodyState \<Rightarrow> Vector3d option" where
  "chi s = block3 (vec s) chi_ind"

definition velocity :: "RigidBodyState \<Rightarrow> Vector3d option" where
  "velocity s = block3 (vec s) velocity_ind"

definition position :: "RigidBodyState \<Rightarrow> Vector3d option" where
  "position s = block3 (vec s) position_ind"

definition angularVelocity :: "RigidBodyState \<Rightarrow> Vector3d option" where
  "angularVelocity s = block3 (vec s) angular_velocity_ind"

definition acceleration :: "RigidBodyState \<Rightarrow> Vector3d option" where
  "acceleration s = block3 (vec s) acceleration_ind"

text \<open>
  \<open>this->vec += other.vec\<close> and \<open>this->vec -= other.vec\<close>: coefficient by coefficient.
  Eigen asserts that both vectors have the same number of rows.
\<close>

definition vec_add :: "env \<Rightarrow> double list \<Rightarrow> double list \<Rightarrow> double list option" where
  "vec_add E a b = (if length a = length b then Some (map2 (coeff_add E) a b) else None)"

definition vec_sub :: "env \<Rightarrow> double list \<Rightarrow> double list \<Rightarrow> double list option" where
  "vec_sub E a b = (if length a = length b then Some (map2 (coeff_sub E) a b) else None)"

subsection \<open>chiToQuat and quatToChi\<close>

definition chiToQuat :: "env \<Rightarrow> RigidBodyState \<Rightarrow> RigidBodyState option" where
  "chiToQuat E s = do {
     c \<leftarrow> chi s;
     let chi_norm = v_norm E c;
     if dgt chi_norm chi_tolerance then do {
       let dquat = q_of_aa E chi_norm (v_div E c chi_norm);
       let s1 = s\<lparr>quat := q_mul E (quat s) dquat\<rparr>;
       v \<leftarrow> set_block3 (vec s1) chi_ind Zero3;
       Some (s1\<lparr>vec := v\<rparr>)
     } else Some s
   }"

definition quatToChi :: "env \<Rightarrow> RigidBodyState \<Rightarrow> RigidBodyState option" where
  "quatToChi E s = do {
     v \<leftarrow> set_block3 (vec s) chi_ind (subtract_quats E (quat s) Identity);
     Some (s\<lparr>vec := v, quat := Identity\<rparr>)
   }"

subsection \<open>addState and subtractState\<close>

text \<open>
  Both methods take the other state by reference, and that reference may be the receiver
  itself.  So they are modelled on a store of objects: \<open>this\<close> and the argument are
  addresses, every statement reads its operands from the store as it is at that moment.
\<close>

type_synonym store = "nat \<Rightarrow> RigidBodyState"

definition addState :: "env \<Rightarrow> nat \<Rightarrow> nat \<Rightarrow> store \<Rightarrow> store option" where
  "addState E this state_to_add h = do {
     v \<leftarrow> vec_add E (vec (h this)) (vec (h state_to_add));
     let h1 = h(this := (h this)\<lparr>vec := v\<rparr>);
     s2 \<leftarrow> chiToQuat E (h1 this);
     let h2 = h1(this := s2);
     Some (h2(this := (h2 this)\<lparr>quat := q_mul E (quat (h2 this)) (quat (h2 state_to_add))\<rparr>))
   }"

definition subtractState :: "env \<Rightarrow> nat \<Rightarrow> nat \<Rightarrow> store \<Rightarrow> store option" where
  "subtractState E this state_to_subtract h = do {
     v \<leftarrow> vec_sub E (vec (h this)) (vec (h state_to_subtract));
     let h1 = h(this := (h this)\<lparr>vec := v\<rparr>);
     Some (h1(this := (h1 this)\<lparr>quat :=
             q_mul E (q_inverse E (quat (h1 state_to_subtract))) (quat (h1 this))\<rparr>))
   }"

subsection \<open>hasNan\<close>

text \<open>
  The loop \<open>for (int ii = 0; ii < vec.rows(); ii++)\<close> from index \<open>ii\<close> on: it returns
  true at the first coefficient for which \<open>isnan\<close> holds, false when it runs off the end.
\<close>

function hasNan_loop :: "double list \<Rightarrow> nat \<Rightarrow> bool" where
  "hasNan_loop v ii =
     (if ii < length v then (if isnan (v ! ii) then True else hasNan_loop v (ii + 1))
      else False)"
  by pat_completeness auto
termination
  by (relation "measure (\<lambda>(v, ii). length v - ii)") auto

definition hasNan :: "RigidBodyState \<Rightarrow> bool" where
  "hasNan s = hasNan_loop (vec s) 0"

subsection \<open>Euler angles\<close>

definition getEulerAngles :: "env \<Rightarrow> RigidBodyState \<Rightarrow> Vector3d" where
  "getEulerAngles E s = m_euler210 E (q_matrix E (quat s))"

definition setQuatEulerAngles :: "env \<Rightarrow> Vector3d \<Rightarrow> RigidBodyState \<Rightarrow> RigidBodyState" where
  "setQuatEulerAngles E eulers s =
     (case eulers of (e0, e1, e2) \<Rightarrow>
        s\<lparr>quat := q_mul E (q_mul E (q_of_aa E e2 UnitZ) (q_of_aa E e1 UnitY))
                           (q_of_aa E e0 UnitX)\<rparr>)"

subsection \<open>The pose record and the conversions\<close>

text \<open>
  \<open>rigid_body_pose_t\<close> comes from a generated header that is not part of the sources; its
  fields are the ones the class reads and writes, with the arrays \<open>double[3]\<close> and
  \<open>double[4]\<close> as tuples.
\<close>

type_synonym BotQuat = "double \<times> double \<times> double \<times> double"

record rigid_body_pose_t =
  pose_utime :: "64 word"
  pos :: Vector3d
  vel :: Vector3d
  orientation :: BotQuat
  rotation_rate :: Vector3d
  accel :: Vector3d

text \<open>
  Modelled from the spec: \<open>quaternionToBotDouble\<close> and \<open>botDoubleToQuaternion\<close> are
  declared in the header and defined elsewhere.  The spec describes them as a lossless,
  bit-preserving conversion between the quaternion and a fixed-order array of four
  doubles, exact on a round trip: the four coefficients are copied, here into the order
  \<open>w, x, y, z\<close>.
\<close>

definition quaternionToBotDouble :: "Quaterniond \<Rightarrow> BotQuat" where
  "quaternionToBotDouble eig_quat = (qw eig_quat, qx eig_quat, qy eig_quat, qz eig_quat)"

text \<open>
  Modelled from the spec: the inverse copy, from the array \<open>w, x, y, z\<close> back into the
  quaternion.
\<close>

definition botDoubleToQuaternion :: "BotQuat \<Rightarrow> Quaterniond" where
  "botDoubleToQuaternion bot_quat =
     (case bot_quat of (b0, b1, b2, b3) \<Rightarrow> Quaterniond b0 b1 b2 b3)"

text \<open>
  \<open>getPose(pose)\<close> writes into the record the caller passes; a block that does not lie
  inside \<open>vec\<close> fails Eigen's assertion.
\<close>

definition getPose :: "RigidBodyState \<Rightarrow> rigid_body_pose_t \<Rightarrow> rigid_body_pose_t option" where
  "getPose s pose = do {
     av \<leftarrow> angularVelocity s;
     let pose1 = pose\<lparr>rotation_rate := av\<rparr>;
     v \<leftarrow> velocity s;
     let pose2 = pose1\<lparr>vel := v\<rparr>;
     p \<leftarrow> position s;
     let pose3 = pose2\<lparr>pos := p\<rparr>;
     a \<leftarrow> acceleration s;
     let pose4 = pose3\<lparr>accel := a\<rparr>;
     let pose5 = pose4\<lparr>orientation := quaternionToBotDouble (quat s)\<rparr>;
     Some (pose5\<lparr>pose_utime := utime s\<rparr>)
   }"

subsection \<open>Constructors\<close>

text \<open>
  \<open>RigidBodyState(int state_dim = basic_num_states)\<close>.  A negative dimension fails Eigen's
  assertion on the size of a vector.
\<close>

definition RigidBodyState_dim :: "int \<Rightarrow> RigidBodyState option" where
  "RigidBodyState_dim state_dim =
     (if state_dim < 0 then None
      else Some \<lparr>quat = Identity, vec = replicate (nat state_dim) (Finite 0), utime = 0\<rparr>)"

definition RigidBodyState_default :: "RigidBodyState option" where
  "RigidBodyState_default = RigidBodyState_dim (int basic_num_states)"

text \<open>
  \<open>RigidBodyState(const VectorXd & arg_vec)\<close>; \<open>None\<close> is the failed \<open>assert\<close>.
\<close>

definition RigidBodyState_vec :: "env \<Rightarrow> double list \<Rightarrow> RigidBodyState option" where
  "RigidBodyState_vec E arg_vec =
     (if length arg_vec \<noteq> basic_num_states then None
      else do {
        s \<leftarrow> chiToQuat E \<lparr>quat = Identity, vec = arg_vec, utime = 0\<rparr>;
        Some (s\<lparr>utime := 0\<rparr>)
      })"

text \<open>\<open>RigidBodyState(const VectorXd & arg_vec, const Quaterniond & arg_quat)\<close>.\<close>

definition RigidBodyState_vec_quat ::
    "double list \<Rightarrow> Quaterniond \<Rightarrow> RigidBodyState option" where
  "RigidBodyState_vec_quat arg_vec arg_quat =
     (if length arg_vec \<noteq> basic_num_states then None
      else Some \<lparr>quat = arg_quat, vec = arg_vec, utime = 0\<rparr>)"

text \<open>
  \<open>RigidBodyState(const rigid_body_pose_t * pose)\<close>.  The vector is allocated with
  \<open>basic_num_states\<close> coefficients that hold whatever the memory held, here the values
  \<open>uninit 0, ..., uninit 14\<close>; the five block assignments then follow in the source's
  order.
\<close>

definition RigidBodyState_pose ::
    "(nat \<Rightarrow> double) \<Rightarrow> rigid_body_pose_t \<Rightarrow> RigidBodyState option" where
  "RigidBodyState_pose uninit pose = do {
     let v0 = map uninit [0..<basic_num_states];
     v1 \<leftarrow> set_block3 v0 velocity_ind (vel pose);
     v2 \<leftarrow> set_block3 v1 angular_velocity_ind (rotation_rate pose);
     v3 \<leftarrow> set_block3 v2 position_ind (pos pose);
     v4 \<leftarrow> set_block3 v3 acceleration_ind (accel pose);
     v5 \<leftarrow> set_block3 v4 chi_ind Zero3;
     Some \<lparr>quat = botDoubleToQuaternion (orientation pose), vec = v5,
            utime = pose_utime pose\<rparr>
   }"

section \<open>The operations in exact arithmetic\<close>

text \<open>
  To run the model at a concrete input, \<open>env\<close> is instantiated by \<open>exact_env\<close>: every
  operation returns the exact real result, and follows IEEE 754 where an operand is
  infinite or NaN (a zero divisor counts as \<open>+0\<close>).  Binary64 arithmetic agrees with it
  wherever the exact result is representable.  That is the case for the sums, products,
  quotients and square roots of the numbers 0, 1/2 and 1 that the states \<open>zero_state\<close>,
  \<open>chi_z_state\<close>, \<open>half_state\<close> and \<open>k_state\<close> below lead to in \<open>vec\<close> and, without a fold,
  in \<open>quat\<close>; the values that involve \<open>pi\<close>, \<open>sin\<close> or \<open>cos\<close> are the ones binary64
  approximates.
\<close>

fun dneg :: "double \<Rightarrow> double" where
  "dneg (Finite a) = Finite (- a)"
| "dneg PosInf = NegInf"
| "dneg NegInf = PosInf"
| "dneg NaN = NaN"

fun dadd :: "double \<Rightarrow> double \<Rightarrow> double" where
  "dadd NaN _ = NaN"
| "dadd _ NaN = NaN"
| "dadd (Finite a) (Finite b) = Finite (a + b)"
| "dadd PosInf NegInf = NaN"
| "dadd NegInf PosInf = NaN"
| "dadd PosInf _ = PosInf"
| "dadd _ PosInf = PosInf"
| "dadd NegInf _ = NegInf"
| "dadd _ NegInf = NegInf"

definition dsub :: "double \<Rightarrow> double \<Rightarrow> double" where
  "dsub a b = dadd a (dneg b)"

text \<open>The sign of an infinite result: \<open>PosInf\<close> when the flag holds.\<close>

definition inf_of :: "bool \<Rightarrow> double" where
  "inf_of positive = (if positive then PosInf else NegInf)"

fun dmul :: "double \<Rightarrow> double \<Rightarrow> double" where
  "dmul NaN _ = NaN"
| "dmul _ NaN = NaN"
| "dmul (Finite a) (Finite b) = Finite (a * b)"
| "dmul (Finite a) PosInf = (if a = 0 then NaN else inf_of (0 < a))"
| "dmul (Finite a) NegInf = (if a = 0 then NaN else inf_of (a < 0))"
| "dmul PosInf (Finite b) = (if b = 0 then NaN else inf_of (0 < b))"
| "dmul NegInf (Finite b) = (if b = 0 then NaN else inf_of (b < 0))"
| "dmul PosInf PosInf = PosInf"
| "dmul PosInf NegInf = NegInf"
| "dmul NegInf PosInf = NegInf"
| "dmul NegInf NegInf = PosInf"

fun ddiv :: "double \<Rightarrow> double \<Rightarrow> double" where
  "ddiv NaN _ = NaN"
| "ddiv _ NaN = NaN"
| "ddiv (Finite a) (Finite b) =
     (if b = 0 then (if a = 0 then NaN else inf_of (0 < a)) else Finite (a / b))"
| "ddiv (Finite a) _ = Finite 0"
| "ddiv PosInf (Finite b) = inf_of (0 \<le> b)"
| "ddiv NegInf (Finite b) = inf_of (b < 0)"
| "ddiv _ _ = NaN"

fun dsqrt :: "double \<Rightarrow> double" where
  "dsqrt (Finite a) = (if a < 0 then NaN else Finite (sqrt a))"
| "dsqrt PosInf = PosInf"
| "dsqrt _ = NaN"

fun dsin :: "double \<Rightarrow> double" where
  "dsin (Finite a) = Finite (sin a)"
| "dsin _ = NaN"

fun dcos :: "double \<Rightarrow> double" where
  "dcos (Finite a) = Finite (cos a)"
| "dcos _ = NaN"

text \<open>\<open>atan2(y, x)\<close> of the C library, with the results C99 fixes for infinite operands.\<close>

fun datan2 :: "double \<Rightarrow> double \<Rightarrow> double" where
  "datan2 NaN _ = NaN"
| "datan2 _ NaN = NaN"
| "datan2 (Finite y) (Finite x) =
     (if 0 < x then Finite (arctan (y / x))
      else if x < 0 then (if 0 \<le> y then Finite (arctan (y / x) + pi)
                          else Finite (arctan (y / x) - pi))
      else if 0 < y then Finite (pi / 2)
      else if y < 0 then Finite (- pi / 2)
      else Finite 0)"
| "datan2 (Finite y) PosInf = Finite 0"
| "datan2 (Finite y) NegInf = (if 0 \<le> y then Finite pi else Finite (- pi))"
| "datan2 PosInf (Finite x) = Finite (pi / 2)"
| "datan2 NegInf (Finite x) = Finite (- pi / 2)"
| "datan2 PosInf PosInf = Finite (pi / 4)"
| "datan2 PosInf NegInf = Finite (3 * pi / 4)"
| "datan2 NegInf PosInf = Finite (- pi / 4)"
| "datan2 NegInf NegInf = Finite (- 3 * pi / 4)"

text \<open>\<open>norm()\<close> is the square root of the sum of the squared coefficients.\<close>

definition exact_norm :: "Vector3d \<Rightarrow> double" where
  "exact_norm v =
     (case v of (a, b, c) \<Rightarrow> dsqrt (dadd (dadd (dmul a a) (dmul b b)) (dmul c c)))"

definition exact_div :: "Vector3d \<Rightarrow> double \<Rightarrow> Vector3d" where
  "exact_div v d = (case v of (a, b, c) \<Rightarrow> (ddiv a d, ddiv b d, ddiv c d))"

definition exact_scale :: "double \<Rightarrow> Vector3d \<Rightarrow> Vector3d" where
  "exact_scale k v = (case v of (a, b, c) \<Rightarrow> (dmul k a, dmul k b, dmul k c))"

text \<open>
  A quaternion from an angle and an axis: \<open>w = cos(angle/2)\<close> and the vector part is
  \<open>sin(angle/2) * axis\<close>.
\<close>

definition exact_of_aa :: "double \<Rightarrow> Vector3d \<Rightarrow> Quaterniond" where
  "exact_of_aa angle axis =
     (let ha = dmul (Finite (1 / 2)) angle;
          v = exact_scale (dsin ha) axis
      in Quaterniond (dcos ha) (fst v) (fst (snd v)) (snd (snd v)))"

text \<open>The Hamilton product.\<close>

definition exact_mul :: "Quaterniond \<Rightarrow> Quaterniond \<Rightarrow> Quaterniond" where
  "exact_mul a b = Quaterniond
     (dsub (dsub (dsub (dmul (qw a) (qw b)) (dmul (qx a) (qx b))) (dmul (qy a) (qy b)))
           (dmul (qz a) (qz b)))
     (dsub (dadd (dadd (dmul (qw a) (qx b)) (dmul (qx a) (qw b))) (dmul (qy a) (qz b)))
           (dmul (qz a) (qy b)))
     (dsub (dadd (dadd (dmul (qw a) (qy b)) (dmul (qy a) (qw b))) (dmul (qz a) (qx b)))
           (dmul (qx a) (qz b)))
     (dsub (dadd (dadd (dmul (qw a) (qz b)) (dmul (qz a) (qw b))) (dmul (qx a) (qy b)))
           (dmul (qy a) (qx b)))"

text \<open>
  \<open>inverse()\<close>: the conjugate divided by the squared norm when that is positive, the
  quaternion with four zero coefficients otherwise.
\<close>

definition exact_inverse :: "Quaterniond \<Rightarrow> Quaterniond" where
  "exact_inverse q =
     (let n2 = dadd (dadd (dadd (dmul (qx q) (qx q)) (dmul (qy q) (qy q)))
                          (dmul (qz q) (qz q))) (dmul (qw q) (qw q))
      in if dgt n2 (Finite 0)
         then Quaterniond (ddiv (qw q) n2) (ddiv (dneg (qx q)) n2) (ddiv (dneg (qy q)) n2)
                (ddiv (dneg (qz q)) n2)
         else Quaterniond (Finite 0) (Finite 0) (Finite 0) (Finite 0))"

text \<open>\<open>toRotationMatrix()\<close>, the matrix given by its three rows.\<close>

definition exact_matrix :: "Quaterniond \<Rightarrow> Matrix3d" where
  "exact_matrix q =
     (let tx = dmul (Finite 2) (qx q); ty = dmul (Finite 2) (qy q);
          tz = dmul (Finite 2) (qz q);
          twx = dmul tx (qw q); twy = dmul ty (qw q); twz = dmul tz (qw q);
          txx = dmul tx (qx q); txy = dmul ty (qx q); txz = dmul tz (qx q);
          tyy = dmul ty (qy q); tyz = dmul tz (qy q); tzz = dmul tz (qz q)
      in ((dsub (Finite 1) (dadd tyy tzz), dsub txy twz, dadd txz twy),
          (dadd txy twz, dsub (Finite 1) (dadd txx tzz), dsub tyz twx),
          (dsub txz twy, dadd tyz twx, dsub (Finite 1) (dadd txx tyy))))"

text \<open>
  \<open>eulerAngles(2, 1, 0)\<close>.  Eigen documents the result \<open>ea\<close> by the equation
  \<open>mat == AngleAxis(ea[0], UnitZ) * AngleAxis(ea[1], UnitY) * AngleAxis(ea[2], UnitX)\<close>:
  coefficient 0 is the angle about the first axis of the triple, here Z.  The
  computation is the one of Eigen's \<open>EulerAngles.h\<close> for a triple of three different
  axes, with \<open>i = 2\<close>, \<open>j = 1\<close>, \<open>k = 0\<close>.
\<close>

definition exact_euler210 :: "Matrix3d \<Rightarrow> Vector3d" where
  "exact_euler210 m =
     (case m of ((m00, m01, m02), (m10, m11, m12), (m20, m21, m22)) \<Rightarrow>
        let r0 = datan2 m10 m00;
            c2 = dsqrt (dadd (dmul m22 m22) (dmul m21 m21));
            flip = dgt (Finite 0) r0;
            res0 = (if flip then (if dgt r0 (Finite 0) then dsub r0 (Finite pi)
                                  else dadd r0 (Finite pi))
                    else r0);
            res1 = (if flip then datan2 (dneg m20) (dneg c2) else datan2 (dneg m20) c2);
            s1 = dsin res0;
            c1 = dcos res0;
            res2 = datan2 (dsub (dmul s1 m02) (dmul c1 m12))
                          (dsub (dmul c1 m11) (dmul s1 m01))
        in (res0, res1, res2))"

text \<open>The quaternion with every coefficient negated; it represents the same rotation.\<close>

definition qneg :: "Quaterniond \<Rightarrow> Quaterniond" where
  "qneg q = Quaterniond (dneg (qw q)) (dneg (qx q)) (dneg (qy q)) (dneg (qz q))"

text \<open>
  Of the two quaternions \<open>r\<close> and \<open>-r\<close> of one rotation, \<open>canonical\<close> picks the one whose
  first non-zero coefficient, in the order \<open>w, x, y, z\<close>, is positive.
\<close>

definition first_nonzero_negative :: "Quaterniond \<Rightarrow> bool" where
  "first_nonzero_negative r \<longleftrightarrow>
     dgt (Finite 0) (qw r) \<or> (qw r = Finite 0 \<and>
       (dgt (Finite 0) (qx r) \<or> (qx r = Finite 0 \<and>
         (dgt (Finite 0) (qy r) \<or> (qy r = Finite 0 \<and> dgt (Finite 0) (qz r))))))"

definition canonical :: "Quaterniond \<Rightarrow> Quaterniond" where
  "canonical r = (if first_nonzero_negative r then qneg r else r)"

text \<open>
  Modelled from the spec: the body of \<open>subtractQuats\<close> is not part of the sources.  The
  spec defines its result from the relative rotation \<open>q2\<^sup>-\<^sup>1 * q1\<close> with scalar part \<open>w\<close>
  and vector part \<open>v\<close>: the angle is \<open>2 * atan2(norm v, w)\<close>, the axis is \<open>v / norm v\<close>,
  and the result is the angle times the axis, "or an equivalent form".  It also requires
  the zero vector when \<open>q1\<close> and \<open>q2\<close> are equal, and the same result for \<open>q\<close> and \<open>-q\<close>.
  The formula alone gives neither (it divides zero by zero, and it tells \<open>q\<close> from \<open>-q\<close>),
  so the model applies it to the canonical quaternion of the relative rotation, and
  returns the zero vector when the vector part has norm zero.
\<close>

definition exact_subtractQuats :: "Quaterniond \<Rightarrow> Quaterniond \<Rightarrow> Vector3d" where
  "exact_subtractQuats quat1 quat2 =
     (let r = canonical (exact_mul (exact_inverse quat2) quat1);
          v = (qx r, qy r, qz r);
          n = exact_norm v
      in if n = Finite 0 then Zero3
         else let angle = dmul (Finite 2) (datan2 n (qw r));
                  axis = exact_div v n
              in exact_scale angle axis)"

definition exact_env :: env where
  "exact_env = \<lparr>coeff_add = dadd, coeff_sub = dsub, v_norm = exact_norm, v_div = exact_div,
     q_of_aa = exact_of_aa, q_mul = exact_mul, q_inverse = exact_inverse,
     q_matrix = exact_matrix, m_euler210 = exact_euler210,
     subtract_quats = exact_subtractQuats\<rparr>"

section \<open>Laws of the arithmetic, sequences of calls, concrete states\<close>

text \<open>
  Three facts of binary64 arithmetic about zero that some statements below need from
  \<open>env\<close>: \<open>0 + 0\<close> and \<open>0 - 0\<close> are \<open>0\<close>, and the norm of the zero vector does not exceed
  the tolerance of \<open>chiToQuat\<close> (it is \<open>0\<close>).
\<close>

definition zero_arith :: "env \<Rightarrow> bool" where
  "zero_arith E \<longleftrightarrow>
     coeff_add E (Finite 0) (Finite 0) = Finite 0
     \<and> coeff_sub E (Finite 0) (Finite 0) = Finite 0
     \<and> \<not> dgt (v_norm E Zero3) chi_tolerance"

text \<open>A store with the object \<open>a\<close> at address 0 and the object \<open>b\<close> everywhere else.\<close>

definition two_objects :: "RigidBodyState \<Rightarrow> RigidBodyState \<Rightarrow> store" where
  "two_objects a b = (\<lambda>r. if r = 0 then a else b)"

text \<open>The state of \<open>a\<close> after \<open>a.addState(b); a.subtractState(b);\<close> for two objects.\<close>

definition add_then_subtract ::
    "env \<Rightarrow> RigidBodyState \<Rightarrow> RigidBodyState \<Rightarrow> RigidBodyState option" where
  "add_then_subtract E a b = do {
     h1 \<leftarrow> addState E 0 1 (two_objects a b);
     h2 \<leftarrow> subtractState E 0 1 h1;
     Some (h2 0)
   }"

text \<open>
  Concrete states: all zero with the identity orientation; the same with chi
  \<open>(0, 0, 1)\<close>, with chi \<open>(0, 0, 1/10)\<close>, and with the orientations
  \<open>(1/2, 1/2, 1/2, 1/2)\<close>, \<open>(0, 0, 0, 1)\<close> and \<open>(0, 1, 0, 0)\<close> (written \<open>w, x, y, z\<close>),
  which are unit quaternions.
\<close>

definition zero_state :: RigidBodyState where
  "zero_state = \<lparr>quat = Identity, vec = replicate 15 (Finite 0), utime = 0\<rparr>"

definition chi_z_state :: RigidBodyState where
  "chi_z_state = zero_state\<lparr>vec := (vec zero_state)[8 := Finite 1]\<rparr>"

definition chi_tenth_state :: RigidBodyState where
  "chi_tenth_state = zero_state\<lparr>vec := (vec zero_state)[8 := Finite (1 / 10)]\<rparr>"

definition half_state :: RigidBodyState where
  "half_state = zero_state\<lparr>quat :=
     Quaterniond (Finite (1 / 2)) (Finite (1 / 2)) (Finite (1 / 2)) (Finite (1 / 2))\<rparr>"

definition k_state :: RigidBodyState where
  "k_state = zero_state\<lparr>quat := Quaterniond (Finite 0) (Finite 0) (Finite 0) (Finite 1)\<rparr>"

definition i_state :: RigidBodyState where
  "i_state = zero_state\<lparr>quat := Quaterniond (Finite 0) (Finite 1) (Finite 0) (Finite 0)\<rparr>"





section \<open>Basic facts\<close>

lemmas ind_defs = angular_velocity_ind_def velocity_ind_def chi_ind_def position_ind_def
  acceleration_ind_def basic_num_states_def

declare hasNan_loop.simps [simp del]

lemma isnan_iff: "isnan d \<longleftrightarrow> d = NaN"
  by (cases d) simp_all

lemma dle_not_dgt: "dle a b \<Longrightarrow> \<not> dgt a b"
  by (cases a; cases b) simp_all

lemma vec15: "replicate 15 x = [x,x,x,x,x,x,x,x,x,x,x,x,x,x,x]"
  by (simp add: numeral_eq_Suc)

lemma list15:
  assumes "length (xs :: 'a list) = 15"
  shows "xs = [xs ! 0, xs ! 1, xs ! 2, xs ! 3, xs ! 4, xs ! 5, xs ! 6, xs ! 7, xs ! 8,
               xs ! 9, xs ! 10, xs ! 11, xs ! 12, xs ! 13, xs ! 14]"
proof -
  from assms obtain x0 x1 x2 x3 x4 x5 x6 x7 x8 x9 x10 x11 x12 x13 x14
    where "xs = [x0, x1, x2, x3, x4, x5, x6, x7, x8, x9, x10, x11, x12, x13, x14]"
    by (auto simp: length_Suc_conv numeral_eq_Suc)
  then show ?thesis by simp
qed

lemma two_objects_simps:
  "two_objects a b 0 = a" "two_objects a b 1 = b" "two_objects a b (Suc n) = b"
  by (simp_all add: two_objects_def)

lemma example_lengths:
  "length (vec zero_state) = 15" "length (vec chi_z_state) = 15"
  "length (vec half_state) = 15" "length (vec k_state) = 15"
  by (simp_all add: zero_state_def chi_z_state_def half_state_def k_state_def)

subsection \<open>The operations in exact arithmetic at the concrete inputs\<close>

lemma exact_norm_unit: "v_norm exact_env (Finite 0, Finite 0, Finite 1) = Finite 1"
  by (simp add: exact_env_def exact_norm_def)

lemma exact_norm_zero: "v_norm exact_env Zero3 = Finite 0"
  by (simp add: exact_env_def exact_norm_def Zero3_def)

lemma tol_lt_one: "dgt (Finite 1) chi_tolerance"
  by (simp add: chi_tolerance_def)

lemma zero_le_tol: "dle (Finite 0) chi_tolerance" "\<not> dgt (Finite 0) chi_tolerance"
  by (simp_all add: chi_tolerance_def)

lemma zero_arith_exact: "zero_arith exact_env"
  by (simp add: zero_arith_def exact_env_def dsub_def exact_norm_def Zero3_def chi_tolerance_def)

section \<open>hasNan\<close>

lemma hasNan_loop_iff:
  "hasNan_loop v ii \<longleftrightarrow> (\<exists>j. ii \<le> j \<and> j < length v \<and> v ! j = NaN)"
proof (induction v ii rule: hasNan_loop.induct)
  case (1 v ii)
  show ?case
  proof (cases "ii < length v")
    case False
    then show ?thesis by (subst hasNan_loop.simps) auto
  next
    case inb: True
    show ?thesis
    proof (cases "isnan (v ! ii)")
      case True
      with inb show ?thesis by (subst hasNan_loop.simps) (auto simp: isnan_iff)
    next
      case False
      have "hasNan_loop v ii = hasNan_loop v (ii + 1)"
        using inb False by (subst hasNan_loop.simps) simp
      also have "\<dots> \<longleftrightarrow> (\<exists>j. ii + 1 \<le> j \<and> j < length v \<and> v ! j = NaN)"
        using "1.IH" inb False by simp
      also have "\<dots> \<longleftrightarrow> (\<exists>j. ii \<le> j \<and> j < length v \<and> v ! j = NaN)"
      proof
        assume "\<exists>j. ii + 1 \<le> j \<and> j < length v \<and> v ! j = NaN"
        then obtain j where "ii + 1 \<le> j" "j < length v" "v ! j = NaN" by blast
        then show "\<exists>j. ii \<le> j \<and> j < length v \<and> v ! j = NaN"
          by (intro exI[of _ j]) simp
      next
        assume "\<exists>j. ii \<le> j \<and> j < length v \<and> v ! j = NaN"
        then obtain j where j: "ii \<le> j" "j < length v" "v ! j = NaN" by blast
        with False have "j \<noteq> ii" by (auto simp: isnan_iff)
        with j show "\<exists>j. ii + 1 \<le> j \<and> j < length v \<and> v ! j = NaN"
          by (intro exI[of _ j]) simp
      qed
      finally show ?thesis .
    qed
  qed
qed

lemma hasNan_iff: "hasNan s \<longleftrightarrow> (\<exists>j < length (vec s). vec s ! j = NaN)"
  by (simp add: hasNan_def hasNan_loop_iff)

lemma hasNan_set: "hasNan s \<longleftrightarrow> NaN \<in> set (vec s)"
  by (auto simp: hasNan_iff in_set_conv_nth)

text \<open>
  Claim C8.  For a state whose vector has 15 coefficients, \<open>hasNan\<close> returns true exactly
  when one of the 15 coefficients is NaN.  It never looks at the quaternion: replacing
  the quaternion by any other leaves the answer unchanged.  The query returns a boolean
  and no state, so it changes nothing.  The state the default constructor builds, all
  coefficients zero, gives false.
\<close>

theorem hasNan_detects_exactly_NaN:
  "length (vec s) = basic_num_states \<Longrightarrow>
     (hasNan s \<longleftrightarrow> (\<exists>i < basic_num_states. vec s ! i = NaN))
     \<and> hasNan (s\<lparr>quat := q\<rparr>) = hasNan s
     \<and> (\<exists>s0. RigidBodyState_default = Some s0 \<and> \<not> hasNan s0)"
  by (simp add: hasNan_iff RigidBodyState_default_def RigidBodyState_dim_def)

theorem hasNan_detects_exactly_NaN_witness:
  "length (vec \<lparr>quat = Quaterniond NaN NaN NaN NaN,
                vec = replicate 14 (Finite 0) @ [NaN], utime = 0\<rparr>) = basic_num_states
   \<and> hasNan \<lparr>quat = Quaterniond NaN NaN NaN NaN,
              vec = replicate 14 (Finite 0) @ [NaN], utime = 0\<rparr>
   \<and> hasNan \<lparr>quat = Identity, vec = replicate 14 (Finite 0) @ [NaN], utime = 0\<rparr>"
proof -
  let ?s = "\<lparr>quat = Quaterniond NaN NaN NaN NaN,
             vec = replicate 14 (Finite 0) @ [NaN], utime = 0\<rparr>"
  have len: "length (vec ?s) = basic_num_states"
    by (simp add: basic_num_states_def)
  have "vec ?s ! 14 = NaN"
    by (simp add: nth_append)
  then have ex: "\<exists>i < basic_num_states. vec ?s ! i = NaN"
    unfolding basic_num_states_def by (intro exI[of _ 14]) simp
  show ?thesis
    using hasNan_detects_exactly_NaN [OF len, of Identity] len ex by simp
qed

text \<open>
  Claim C10.  \<open>hasNan\<close> detects NaN only: a state whose vector holds plus or minus
  infinity and no NaN gives false.
\<close>

theorem hasNan_misses_infinity:
  "(PosInf \<in> set (vec s) \<or> NegInf \<in> set (vec s)) \<Longrightarrow> NaN \<notin> set (vec s) \<Longrightarrow> \<not> hasNan s"
  by (simp add: hasNan_set)

theorem hasNan_misses_infinity_witness:
  "\<not> hasNan \<lparr>quat = Identity, vec = replicate 14 (Finite 0) @ [PosInf], utime = 0\<rparr>
   \<and> \<not> hasNan \<lparr>quat = Identity, vec = NegInf # replicate 14 (Finite 0), utime = 0\<rparr>"
  using hasNan_misses_infinity [of "\<lparr>quat = Identity, vec = replicate 14 (Finite 0) @ [PosInf], utime = 0\<rparr>"]
    hasNan_misses_infinity [of "\<lparr>quat = Identity, vec = NegInf # replicate 14 (Finite 0), utime = 0\<rparr>"]
  by simp

section \<open>chiToQuat\<close>

lemma chi_SomeD: "chi s = Some c \<Longrightarrow> 9 \<le> length (vec s)"
  by (auto simp: chi_def block3_def chi_ind_def split: if_splits)

lemma chi_zero_iff:
  "chi s = Some Zero3 \<longleftrightarrow>
     9 \<le> length (vec s) \<and> vec s ! 6 = Finite 0 \<and> vec s ! 7 = Finite 0 \<and> vec s ! 8 = Finite 0"
  by (auto simp: chi_def block3_def chi_ind_def Zero3_def)

lemma chi_quat_update: "chi (s\<lparr>quat := q\<rparr>) = chi s"
  by (simp add: chi_def)

lemma chiToQuat_skip:
  "chi s = Some c \<Longrightarrow> \<not> dgt (v_norm E c) chi_tolerance \<Longrightarrow> chiToQuat E s = Some s"
  by (simp add: chiToQuat_def)

lemma chiToQuat_fold:
  assumes "chi s = Some c" and "dgt (v_norm E c) chi_tolerance"
  shows "chiToQuat E s =
    Some (s\<lparr>quat := q_mul E (quat s) (q_of_aa E (v_norm E c) (v_div E c (v_norm E c))),
           vec := (vec s)[6 := Finite 0, 7 := Finite 0, 8 := Finite 0]\<rparr>)"
  using assms chi_SomeD [OF assms(1)]
  by (simp add: chiToQuat_def set_block3_def Zero3_def chi_ind_def Let_def)

lemma chiToQuat_total:
  assumes "9 \<le> length (vec s)"
  shows "\<exists>s'. chiToQuat E s = Some s' \<and> utime s' = utime s \<and> length (vec s') = length (vec s)"
proof -
  obtain c where c: "chi s = Some c"
    using assms by (simp add: chi_def block3_def chi_ind_def)
  show ?thesis
  proof (cases "dgt (v_norm E c) chi_tolerance")
    case True
    from chiToQuat_fold [OF c True] show ?thesis by simp
  next
    case False
    from chiToQuat_skip [OF c False] show ?thesis by simp
  qed
qed

lemma chiToQuat_vec:
  assumes "chiToQuat E s = Some s'"
  shows "length (vec s') = length (vec s)"
    and "i \<notin> {6, 7, 8} \<Longrightarrow> vec s' ! i = vec s ! i"
    and "utime s' = utime s"
proof -
  obtain c where c: "chi s = Some c"
    using assms by (cases "chi s") (simp_all add: chiToQuat_def)
  have "length (vec s') = length (vec s) \<and> (i \<notin> {6, 7, 8} \<longrightarrow> vec s' ! i = vec s ! i)
      \<and> utime s' = utime s"
  proof (cases "dgt (v_norm E c) chi_tolerance")
    case True
    from chiToQuat_fold [OF c True] assms show ?thesis by auto
  next
    case False
    from chiToQuat_skip [OF c False] assms show ?thesis by auto
  qed
  then show "length (vec s') = length (vec s)"
    and "i \<notin> {6, 7, 8} \<Longrightarrow> vec s' ! i = vec s ! i"
    and "utime s' = utime s"
    by simp_all
qed

text \<open>
  Claim C3.  Let \<open>c\<close> be the chi slot of \<open>s\<close> (so \<open>s\<close> has at least 9 coefficients).
  If the norm of \<open>c\<close> exceeds the tolerance, \<open>chiToQuat\<close> multiplies the orientation on
  the right by the quaternion of the rotation by the angle \<open>norm c\<close> about the axis
  \<open>c / norm c\<close>, sets the chi slot to zero and leaves every other coefficient and the
  timestamp as they were.  If the norm is at most the tolerance, or is NaN, the state is
  unchanged.  A second call changes nothing after the first, given that the norm of the
  zero vector does not exceed the tolerance.
\<close>

theorem chiToQuat_folds_chi:
  assumes "chi s = Some c"
  shows "(dgt (v_norm E c) chi_tolerance \<longrightarrow>
            (\<exists>s'. chiToQuat E s = Some s'
               \<and> quat s' = q_mul E (quat s) (q_of_aa E (v_norm E c) (v_div E c (v_norm E c)))
               \<and> chi s' = Some Zero3
               \<and> length (vec s') = length (vec s)
               \<and> (\<forall>i < length (vec s). i \<notin> {6, 7, 8} \<longrightarrow> vec s' ! i = vec s ! i)
               \<and> utime s' = utime s))
       \<and> (dle (v_norm E c) chi_tolerance \<or> isnan (v_norm E c) \<longrightarrow> chiToQuat E s = Some s)
       \<and> (\<not> dgt (v_norm E Zero3) chi_tolerance \<longrightarrow>
            (\<exists>s'. chiToQuat E s = Some s' \<and> chiToQuat E s' = Some s'))"
proof (intro conjI impI)
  assume gt: "dgt (v_norm E c) chi_tolerance"
  let ?s' = "s\<lparr>quat := q_mul E (quat s) (q_of_aa E (v_norm E c) (v_div E c (v_norm E c))),
           vec := (vec s)[6 := Finite 0, 7 := Finite 0, 8 := Finite 0]\<rparr>"
  have "chiToQuat E s = Some ?s'"
    using assms gt by (rule chiToQuat_fold)
  moreover have "chi ?s' = Some Zero3"
    using chi_SomeD [OF assms] by (simp add: chi_def block3_def Zero3_def chi_ind_def)
  ultimately show "\<exists>s'. chiToQuat E s = Some s'
               \<and> quat s' = q_mul E (quat s) (q_of_aa E (v_norm E c) (v_div E c (v_norm E c)))
               \<and> chi s' = Some Zero3
               \<and> length (vec s') = length (vec s)
               \<and> (\<forall>i < length (vec s). i \<notin> {6, 7, 8} \<longrightarrow> vec s' ! i = vec s ! i)
               \<and> utime s' = utime s"
    by (intro exI[of _ ?s']) simp
next
  assume "dle (v_norm E c) chi_tolerance \<or> isnan (v_norm E c)"
  then have "\<not> dgt (v_norm E c) chi_tolerance"
    by (auto simp: dle_not_dgt isnan_iff)
  with assms show "chiToQuat E s = Some s"
    by (rule chiToQuat_skip)
next
  assume zero: "\<not> dgt (v_norm E Zero3) chi_tolerance"
  show "\<exists>s'. chiToQuat E s = Some s' \<and> chiToQuat E s' = Some s'"
  proof (cases "dgt (v_norm E c) chi_tolerance")
    case False
    with assms have "chiToQuat E s = Some s" by (rule chiToQuat_skip)
    then show ?thesis by simp
  next
    case True
    let ?s' = "s\<lparr>quat := q_mul E (quat s) (q_of_aa E (v_norm E c) (v_div E c (v_norm E c))),
           vec := (vec s)[6 := Finite 0, 7 := Finite 0, 8 := Finite 0]\<rparr>"
    have first: "chiToQuat E s = Some ?s'"
      using assms True by (rule chiToQuat_fold)
    have "chi ?s' = Some Zero3"
      using chi_SomeD [OF assms] by (simp add: chi_def block3_def Zero3_def chi_ind_def)
    then have "chiToQuat E ?s' = Some ?s'"
      using zero by (rule chiToQuat_skip)
    with first show ?thesis by simp
  qed
qed

theorem chiToQuat_folds_chi_witness:
  "chi \<lparr>quat = Identity, vec = replicate 8 (Finite 0) @ Finite 1 # replicate 6 (Finite 0),
        utime = 0\<rparr> = Some (Finite 0, Finite 0, Finite 1)
   \<and> dgt (v_norm exact_env (Finite 0, Finite 0, Finite 1)) chi_tolerance
   \<and> (\<exists>s'. chiToQuat exact_env \<lparr>quat = Identity,
               vec = replicate 8 (Finite 0) @ Finite 1 # replicate 6 (Finite 0), utime = 0\<rparr>
             = Some s' \<and> chi s' = Some Zero3)
   \<and> chi \<lparr>quat = Identity, vec = replicate 15 (Finite 0), utime = 0\<rparr> = Some Zero3
   \<and> dle (v_norm exact_env Zero3) chi_tolerance
   \<and> \<not> dgt (v_norm exact_env Zero3) chi_tolerance
   \<and> chiToQuat exact_env \<lparr>quat = Identity, vec = replicate 15 (Finite 0), utime = 0\<rparr>
       = Some \<lparr>quat = Identity, vec = replicate 15 (Finite 0), utime = 0\<rparr>"
proof -
  let ?a = "\<lparr>quat = Identity, vec = replicate 8 (Finite 0) @ Finite 1 # replicate 6 (Finite 0),
        utime = 0\<rparr>"
  let ?b = "\<lparr>quat = Identity, vec = replicate 15 (Finite 0), utime = 0\<rparr>"
  have a: "chi ?a = Some (Finite 0, Finite 0, Finite 1)"
    by (simp add: chi_def block3_def chi_ind_def nth_append)
  have b: "chi ?b = Some Zero3"
    by (simp add: chi_def block3_def chi_ind_def Zero3_def)
  have gt: "dgt (v_norm exact_env (Finite 0, Finite 0, Finite 1)) chi_tolerance"
    by (simp add: exact_norm_unit tol_lt_one)
  have le: "dle (v_norm exact_env Zero3) chi_tolerance"
    "\<not> dgt (v_norm exact_env Zero3) chi_tolerance"
    by (simp_all add: exact_norm_zero zero_le_tol)
  show ?thesis
    using chiToQuat_folds_chi [OF a, of exact_env] chiToQuat_folds_chi [OF b, of exact_env]
      a b gt le
    by auto
qed

section \<open>addState and subtractState\<close>

lemma vec_add_Some:
  "length a = length b \<Longrightarrow> vec_add E a b = Some (map2 (coeff_add E) a b)"
  by (simp add: vec_add_def)

lemma vec_sub_Some:
  "length a = length b \<Longrightarrow> vec_sub E a b = Some (map2 (coeff_sub E) a b)"
  by (simp add: vec_sub_def)

lemma addState_run:
  assumes "length (vec (h this)) = length (vec (h other))"
  shows "addState E this other h =
     map_option
       (\<lambda>s2. h(this := s2\<lparr>quat :=
              q_mul E (quat s2) (quat (if other = this then s2 else h other))\<rparr>))
       (chiToQuat E ((h this)\<lparr>vec := map2 (coeff_add E) (vec (h this)) (vec (h other))\<rparr>))"
proof (cases "chiToQuat E
    ((h this)\<lparr>vec := map2 (coeff_add E) (vec (h this)) (vec (h other))\<rparr>)")
  case None
  then show ?thesis
    using assms by (simp add: addState_def vec_add_Some Let_def)
next
  case (Some s2)
  then show ?thesis
    using assms by (simp add: addState_def vec_add_Some Let_def)
qed

lemma subtractState_run:
  assumes "length (vec (h this)) = length (vec (h other))"
  shows "subtractState E this other h
     = Some (h(this := (h this)\<lparr>vec := map2 (coeff_sub E) (vec (h this)) (vec (h other)),
          quat := q_mul E (q_inverse E (quat (h other))) (quat (h this))\<rparr>))"
  using assms by (simp add: subtractState_def vec_sub_Some Let_def)

lemma addState_result:
  assumes "length (vec (h this)) = length (vec (h other))"
    and "chi_ind + 3 \<le> length (vec (h this))"
    and "this \<noteq> other"
    and "v = map2 (coeff_add E) (vec (h this)) (vec (h other))"
    and "c = (v ! 6, v ! 7, v ! 8)"
  shows "\<exists>h'. addState E this other h = Some h'
       \<and> (dgt (v_norm E c) chi_tolerance \<longrightarrow>
            quat (h' this) =
              q_mul E (q_mul E (quat (h this))
                         (q_of_aa E (v_norm E c) (v_div E c (v_norm E c))))
                (quat (h other))
            \<and> vec (h' this) = v[6 := Finite 0, 7 := Finite 0, 8 := Finite 0]
            \<and> chi (h' this) = Some Zero3)
       \<and> (\<not> dgt (v_norm E c) chi_tolerance \<longrightarrow>
            quat (h' this) = q_mul E (quat (h this)) (quat (h other))
            \<and> vec (h' this) = v)
       \<and> h' other = h other"
proof -
  let ?s1 = "(h this)\<lparr>vec := v\<rparr>"
  have len: "9 \<le> length v"
    using assms(1,2,4) by (simp add: chi_ind_def)
  have c: "chi ?s1 = Some c"
    using len assms(5) by (simp add: chi_def block3_def chi_ind_def)
  note run = addState_run [OF assms(1), of E, folded assms(4)]
  show ?thesis
  proof (cases "dgt (v_norm E c) chi_tolerance")
    case True
    from chiToQuat_fold [OF c True] run assms(3) len show ?thesis
      by (simp add: True chi_zero_iff)
  next
    case False
    from chiToQuat_skip [OF c False] run assms(3) show ?thesis
      by (simp add: False)
  qed
qed

lemma exact_fold_unit:
  "q_mul exact_env (q_mul exact_env Identity
      (q_of_aa exact_env (Finite 1)
         (v_div exact_env (Finite 0, Finite 0, Finite 1) (Finite 1)))) Identity
   = Quaterniond (Finite (cos (1 / 2))) (Finite 0) (Finite 0) (Finite (sin (1 / 2)))"
  by (simp add: exact_env_def exact_mul_def exact_of_aa_def exact_div_def exact_scale_def
      Identity_def dsub_def Let_def)

lemma exact_half_times_k:
  "q_mul exact_env (quat half_state) (quat k_state)
   = Quaterniond (Finite (- 1 / 2)) (Finite (1 / 2)) (Finite (- 1 / 2)) (Finite (1 / 2))"
  by (simp add: exact_env_def exact_mul_def half_state_def k_state_def zero_state_def
      dsub_def)

text \<open>
  Claim C1.  For two states whose vectors have the same number of coefficients,
  \<open>addState\<close> sets the receiver's vector to the coefficient-wise sum \<open>v\<close> of both
  vectors, chi slots included, then applies \<open>chiToQuat\<close> to the receiver, then multiplies
  its orientation on the right by the argument's orientation; where \<open>chiToQuat\<close> fails
  (a vector without chi slot), \<open>addState\<close> fails.  With at least 9 coefficients the call
  succeeds, the receiver's timestamp is unchanged, and so is every object other than the
  receiver: the argument is not mutated, unless it is the receiver itself.  For two
  distinct objects the result is, with \<open>c\<close> the chi slot of \<open>v\<close>: when the norm of \<open>c\<close>
  exceeds the tolerance, the orientation \<open>(q * dq) * t.quat\<close>, where \<open>q\<close> is the receiver's
  orientation before the call and \<open>dq\<close> the quaternion of the rotation by the angle
  \<open>norm c\<close> about \<open>c / norm c\<close>, and the vector \<open>v\<close> with the chi slot set to zero;
  otherwise the orientation \<open>q * t.quat\<close> and the vector \<open>v\<close>.
\<close>

theorem addState_sums_folds_postmultiplies:
  assumes "length (vec (h this)) = length (vec (h other))"
  shows "\<exists>v c. length v = length (vec (h this))
     \<and> (\<forall>i < length v. v ! i = coeff_add E (vec (h this) ! i) (vec (h other) ! i))
     \<and> c = (v ! 6, v ! 7, v ! 8)
     \<and> addState E this other h =
         map_option
           (\<lambda>s2. h(this := s2\<lparr>quat :=
                  q_mul E (quat s2) (quat (if other = this then s2 else h other))\<rparr>))
           (chiToQuat E ((h this)\<lparr>vec := v\<rparr>))
     \<and> (chi_ind + 3 \<le> length (vec (h this)) \<longrightarrow>
          (\<exists>h'. addState E this other h = Some h'
             \<and> utime (h' this) = utime (h this)
             \<and> (\<forall>r. r \<noteq> this \<longrightarrow> h' r = h r)))
     \<and> (chi_ind + 3 \<le> length (vec (h this)) \<and> this \<noteq> other \<longrightarrow>
          (\<exists>h'. addState E this other h = Some h'
             \<and> (dgt (v_norm E c) chi_tolerance \<longrightarrow>
                  quat (h' this) =
                    q_mul E (q_mul E (quat (h this))
                               (q_of_aa E (v_norm E c) (v_div E c (v_norm E c))))
                      (quat (h other))
                  \<and> vec (h' this) = v[6 := Finite 0, 7 := Finite 0, 8 := Finite 0]
                  \<and> chi (h' this) = Some Zero3)
             \<and> (\<not> dgt (v_norm E c) chi_tolerance \<longrightarrow>
                  quat (h' this) = q_mul E (quat (h this)) (quat (h other))
                  \<and> vec (h' this) = v)
             \<and> h' other = h other))"
proof -
  let ?v = "map2 (coeff_add E) (vec (h this)) (vec (h other))"
  let ?c = "(?v ! 6, ?v ! 7, ?v ! 8)"
  have len: "length ?v = length (vec (h this))"
    using assms by simp
  have sum: "\<forall>i < length ?v. ?v ! i = coeff_add E (vec (h this) ! i) (vec (h other) ! i)"
    by simp
  note run = addState_run [OF assms, of E]
  have total: "\<exists>h'. addState E this other h = Some h'
             \<and> utime (h' this) = utime (h this)
             \<and> (\<forall>r. r \<noteq> this \<longrightarrow> h' r = h r)"
    if "chi_ind + 3 \<le> length (vec (h this))"
  proof -
    have "9 \<le> length (vec ((h this)\<lparr>vec := ?v\<rparr>))"
      using that assms by (simp add: chi_ind_def)
    from chiToQuat_total [OF this, of E] obtain s2
      where s2: "chiToQuat E ((h this)\<lparr>vec := ?v\<rparr>) = Some s2"
        and ut: "utime s2 = utime (h this)"
      by auto
    show ?thesis
      using run s2 ut by simp
  qed
  have folds: "\<exists>h'. addState E this other h = Some h'
             \<and> (dgt (v_norm E ?c) chi_tolerance \<longrightarrow>
                  quat (h' this) =
                    q_mul E (q_mul E (quat (h this))
                               (q_of_aa E (v_norm E ?c) (v_div E ?c (v_norm E ?c))))
                      (quat (h other))
                  \<and> vec (h' this) = ?v[6 := Finite 0, 7 := Finite 0, 8 := Finite 0]
                  \<and> chi (h' this) = Some Zero3)
             \<and> (\<not> dgt (v_norm E ?c) chi_tolerance \<longrightarrow>
                  quat (h' this) = q_mul E (quat (h this)) (quat (h other))
                  \<and> vec (h' this) = ?v)
             \<and> h' other = h other"
    if "chi_ind + 3 \<le> length (vec (h this)) \<and> this \<noteq> other"
    using that by (intro addState_result [OF assms]) simp_all
  show ?thesis
    using len sum run total folds by (intro exI[of _ ?v] exI[of _ ?c]) blast
qed

theorem addState_sums_folds_postmultiplies_witness:
  "length (vec (two_objects zero_state chi_z_state 0))
       = length (vec (two_objects zero_state chi_z_state 1))
   \<and> chi_ind + 3 \<le> length (vec (two_objects zero_state chi_z_state 0))
   \<and> (0::nat) \<noteq> 1
   \<and> dgt (v_norm exact_env (Finite 0, Finite 0, Finite 1)) chi_tolerance
   \<and> (\<exists>h'. addState exact_env 0 1 (two_objects zero_state chi_z_state) = Some h'
          \<and> quat (h' 0)
              = Quaterniond (Finite (cos (1 / 2))) (Finite 0) (Finite 0) (Finite (sin (1 / 2)))
          \<and> vec (h' 0) = replicate 15 (Finite 0)
          \<and> chi (h' 0) = Some Zero3
          \<and> h' 1 = chi_z_state)
   \<and> length (vec (two_objects half_state k_state 0))
       = length (vec (two_objects half_state k_state 1))
   \<and> \<not> dgt (v_norm exact_env (Finite 0, Finite 0, Finite 0)) chi_tolerance
   \<and> (\<exists>h'. addState exact_env 0 1 (two_objects half_state k_state) = Some h'
          \<and> quat (h' 0)
              = Quaterniond (Finite (- 1 / 2)) (Finite (1 / 2)) (Finite (- 1 / 2))
                  (Finite (1 / 2))
          \<and> vec (h' 0) = replicate 15 (Finite 0)
          \<and> h' 1 = k_state)"
proof -
  let ?h = "two_objects zero_state chi_z_state"
  let ?g = "two_objects half_state k_state"
  have len: "length (vec (?h 0)) = length (vec (?h 1))"
    by (simp add: two_objects_simps example_lengths)
  have nine: "chi_ind + 3 \<le> length (vec (?h 0))" "(0::nat) \<noteq> 1"
    by (simp_all add: two_objects_simps example_lengths chi_ind_def)
  have gt: "dgt (v_norm exact_env (Finite 0, Finite 0, Finite 1)) chi_tolerance"
    by (simp add: exact_norm_unit tol_lt_one)
  have len': "length (vec (?g 0)) = length (vec (?g 1))"
    by (simp add: two_objects_simps example_lengths)
  have nine': "chi_ind + 3 \<le> length (vec (?g 0))"
    by (simp add: two_objects_simps example_lengths chi_ind_def)
  have ngt: "\<not> dgt (v_norm exact_env (Finite 0, Finite 0, Finite 0)) chi_tolerance"
    using exact_norm_zero zero_le_tol(2) by (simp add: Zero3_def)
  from addState_sums_folds_postmultiplies [OF len, of exact_env] obtain v c
    where v: "length v = length (vec (?h 0))"
      "\<forall>i < length v. v ! i = coeff_add exact_env (vec (?h 0) ! i) (vec (?h 1) ! i)"
      and c: "c = (v ! 6, v ! 7, v ! 8)"
      and folds: "chi_ind + 3 \<le> length (vec (?h 0)) \<and> (0::nat) \<noteq> 1 \<longrightarrow>
          (\<exists>h'. addState exact_env 0 1 ?h = Some h'
             \<and> (dgt (v_norm exact_env c) chi_tolerance \<longrightarrow>
                  quat (h' 0) =
                    q_mul exact_env (q_mul exact_env (quat (?h 0))
                       (q_of_aa exact_env (v_norm exact_env c)
                          (v_div exact_env c (v_norm exact_env c))))
                      (quat (?h 1))
                  \<and> vec (h' 0) = v[6 := Finite 0, 7 := Finite 0, 8 := Finite 0]
                  \<and> chi (h' 0) = Some Zero3)
             \<and> (\<not> dgt (v_norm exact_env c) chi_tolerance \<longrightarrow>
                  quat (h' 0) = q_mul exact_env (quat (?h 0)) (quat (?h 1))
                  \<and> vec (h' 0) = v)
             \<and> h' 1 = ?h 1)"
    by blast
  have "v = map2 (coeff_add exact_env) (vec (?h 0)) (vec (?h 1))"
    using v len by (intro nth_equalityI) simp_all
  then have v_eq: "v = (replicate 15 (Finite 0))[8 := Finite 1]"
    by (simp add: two_objects_simps zero_state_def chi_z_state_def vec15 exact_env_def)
  then have c_eq: "c = (Finite 0, Finite 0, Finite 1)"
    using c by (simp add: vec15)
  have first: "\<exists>h'. addState exact_env 0 1 ?h = Some h'
          \<and> quat (h' 0)
              = Quaterniond (Finite (cos (1 / 2))) (Finite 0) (Finite 0) (Finite (sin (1 / 2)))
          \<and> vec (h' 0) = replicate 15 (Finite 0)
          \<and> chi (h' 0) = Some Zero3
          \<and> h' 1 = chi_z_state"
    using folds nine gt exact_fold_unit
    by (auto simp: c_eq v_eq exact_norm_unit two_objects_simps zero_state_def chi_z_state_def
        vec15)
  from addState_sums_folds_postmultiplies [OF len', of exact_env] obtain w d
    where w: "length w = length (vec (?g 0))"
      "\<forall>i < length w. w ! i = coeff_add exact_env (vec (?g 0) ! i) (vec (?g 1) ! i)"
      and d: "d = (w ! 6, w ! 7, w ! 8)"
      and skips: "chi_ind + 3 \<le> length (vec (?g 0)) \<and> (0::nat) \<noteq> 1 \<longrightarrow>
          (\<exists>h'. addState exact_env 0 1 ?g = Some h'
             \<and> (\<not> dgt (v_norm exact_env d) chi_tolerance \<longrightarrow>
                  quat (h' 0) = q_mul exact_env (quat (?g 0)) (quat (?g 1))
                  \<and> vec (h' 0) = w)
             \<and> h' 1 = ?g 1)"
    by blast
  have "w = map2 (coeff_add exact_env) (vec (?g 0)) (vec (?g 1))"
    using w len' by (intro nth_equalityI) simp_all
  then have w_eq: "w = replicate 15 (Finite 0)"
    by (simp add: two_objects_simps zero_state_def half_state_def k_state_def vec15
        exact_env_def)
  then have d_eq: "d = (Finite 0, Finite 0, Finite 0)"
    using d by (simp add: vec15)
  have second: "\<exists>h'. addState exact_env 0 1 ?g = Some h'
          \<and> quat (h' 0)
              = Quaterniond (Finite (- 1 / 2)) (Finite (1 / 2)) (Finite (- 1 / 2))
                  (Finite (1 / 2))
          \<and> vec (h' 0) = replicate 15 (Finite 0)
          \<and> h' 1 = k_state"
    using skips nine' nine(2) ngt exact_half_times_k
    by (auto simp: d_eq w_eq two_objects_simps)
  show ?thesis
    using len nine gt first len' ngt second by blast
qed

text \<open>
  Claim C2.  For two states whose vectors have the same number of coefficients,
  \<open>subtractState\<close> succeeds and sets the receiver's vector to the coefficient-wise
  difference and its orientation to the inverse of the argument's orientation times the
  receiver's orientation.  No chi is folded: every coefficient of the result, the chi
  slot included, is the difference, and no further factor enters the orientation.  The
  receiver's timestamp is unchanged, and so is every object other than the receiver: the
  argument is not mutated, unless it is the receiver itself.
\<close>

theorem subtractState_subtracts_premultiplies:
  assumes "length (vec (h this)) = length (vec (h other))"
  shows "\<exists>h'. subtractState E this other h = Some h'
     \<and> length (vec (h' this)) = length (vec (h this))
     \<and> (\<forall>i < length (vec (h this)).
           vec (h' this) ! i = coeff_sub E (vec (h this) ! i) (vec (h other) ! i))
     \<and> quat (h' this) = q_mul E (q_inverse E (quat (h other))) (quat (h this))
     \<and> utime (h' this) = utime (h this)
     \<and> (\<forall>r. r \<noteq> this \<longrightarrow> h' r = h r)"
  using assms by (simp add: subtractState_run)

theorem subtractState_subtracts_premultiplies_witness:
  "length (vec (two_objects chi_z_state zero_state 0))
       = length (vec (two_objects chi_z_state zero_state 1))
   \<and> (\<exists>h'. subtractState exact_env 0 1 (two_objects chi_z_state zero_state) = Some h'
          \<and> h' 1 = zero_state \<and> utime (h' 0) = utime chi_z_state
          \<and> quat (h' 0) = q_mul exact_env (q_inverse exact_env (quat zero_state))
                             (quat chi_z_state))"
proof -
  let ?h = "two_objects chi_z_state zero_state"
  have len: "length (vec (?h 0)) = length (vec (?h 1))"
    by (simp add: two_objects_simps example_lengths)
  show ?thesis
    using subtractState_subtracts_premultiplies [OF len, of exact_env] len
    by (auto simp: two_objects_simps)
qed

section \<open>addState followed by subtractState\<close>

lemma lost_chi_example: "map_option (\<lambda>s. vec s ! 8) (add_then_subtract exact_env zero_state chi_z_state)
   = Some (Finite (- 1))"
  by (simp add: add_then_subtract_def addState_def subtractState_def two_objects_def
      zero_state_def chi_z_state_def vec15 vec_add_def vec_sub_def exact_env_def
      chiToQuat_def chi_def block3_def set_block3_def chi_ind_def Zero3_def exact_norm_def
      chi_tolerance_def dsub_def Let_def)

lemma conjugated_orientation_example: "map_option quat (add_then_subtract exact_env half_state k_state)
   = Some (Quaterniond (Finite (1 / 2)) (Finite (- 1 / 2)) (Finite (- 1 / 2)) (Finite (1 / 2)))"
  by (simp add: add_then_subtract_def addState_def subtractState_def two_objects_def
      zero_state_def half_state_def k_state_def vec15 vec_add_def vec_sub_def exact_env_def
      chiToQuat_def chi_def block3_def set_block3_def chi_ind_def Zero3_def exact_norm_def
      chi_tolerance_def dsub_def Let_def exact_mul_def exact_inverse_def)

text \<open>
  Claim C4 says that \<open>a.addState(b)\<close> followed by \<open>a.subtractState(b)\<close> gives back all
  15 coefficients of \<open>a\<close> and its orientation.  It does not.  With \<open>a\<close> all zero and
  \<open>b\<close> with chi \<open>(0, 0, 1)\<close>, \<open>addState\<close> folds the summed chi into the orientation and
  resets it, so the subtraction leaves \<open>0 - 1 = -1\<close> in coefficient 8, where \<open>a\<close> had
  \<open>0\<close>.  With the orientations \<open>(1/2, 1/2, 1/2, 1/2)\<close> for \<open>a\<close> and \<open>(0, 0, 0, 1)\<close> for
  \<open>b\<close> and all coefficients zero, the result has the orientation
  \<open>(1/2, -1/2, -1/2, 1/2)\<close>: \<open>addState\<close> multiplies by \<open>b\<close>'s orientation on the right,
  \<open>subtractState\<close> by its inverse on the left.  Every operation on the way is exact in
  binary64.
\<close>

theorem add_then_subtract_counterexample:
  "map_option (\<lambda>s. vec s ! 8) (add_then_subtract exact_env zero_state chi_z_state)
     = Some (Finite (- 1))
   \<and> vec zero_state ! 8 = Finite 0
   \<and> map_option quat (add_then_subtract exact_env half_state k_state)
     = Some (Quaterniond (Finite (1 / 2)) (Finite (- 1 / 2)) (Finite (- 1 / 2))
               (Finite (1 / 2)))
   \<and> quat half_state
     = Quaterniond (Finite (1 / 2)) (Finite (1 / 2)) (Finite (1 / 2)) (Finite (1 / 2))"
  using lost_chi_example conjugated_orientation_example by (simp add: zero_state_def half_state_def)

text \<open>
  Claim C4, amended.  For two distinct objects whose vectors have the same number of
  coefficients, at least 9, \<open>addState\<close> followed by \<open>subtractState\<close> with the same argument
  succeeds and leaves in the receiver: in every coefficient outside the chi slot, the
  computed value \<open>(a\<^sub>i + b\<^sub>i) - b\<^sub>i\<close>; in the chi slot, what \<open>chiToQuat\<close> left there
  after the addition, minus \<open>b\<close>'s chi; as orientation, the inverse of \<open>b\<close>'s orientation
  times (the receiver's orientation after \<open>chiToQuat\<close>, times \<open>b\<close>'s orientation); the
  timestamp of \<open>a\<close>.  The argument is unchanged.
\<close>

theorem add_then_subtract_result:
  assumes "this \<noteq> other"
    and "length (vec (h this)) = length (vec (h other))"
    and "chi_ind + 3 \<le> length (vec (h this))"
  shows "\<exists>s2 h1 h2.
       chiToQuat E ((h this)\<lparr>vec := map2 (coeff_add E) (vec (h this)) (vec (h other))\<rparr>)
         = Some s2
     \<and> addState E this other h = Some h1
     \<and> subtractState E this other h1 = Some h2
     \<and> length (vec (h2 this)) = length (vec (h this))
     \<and> (\<forall>i < length (vec (h this)). i \<notin> {6, 7, 8} \<longrightarrow>
           vec (h2 this) ! i =
             coeff_sub E (coeff_add E (vec (h this) ! i) (vec (h other) ! i))
               (vec (h other) ! i))
     \<and> (\<forall>i \<in> {6, 7, 8}. vec (h2 this) ! i = coeff_sub E (vec s2 ! i) (vec (h other) ! i))
     \<and> quat (h2 this) =
         q_mul E (q_inverse E (quat (h other))) (q_mul E (quat s2) (quat (h other)))
     \<and> utime (h2 this) = utime (h this)
     \<and> h2 other = h other"
proof -
  let ?v = "map2 (coeff_add E) (vec (h this)) (vec (h other))"
  have "9 \<le> length (vec ((h this)\<lparr>vec := ?v\<rparr>))"
    using assms(2,3) by (simp add: chi_ind_def)
  from chiToQuat_total [OF this, of E] obtain s2
    where s2: "chiToQuat E ((h this)\<lparr>vec := ?v\<rparr>) = Some s2"
    by auto
  have run1: "addState E this other h
           = Some (h(this := s2\<lparr>quat := q_mul E (quat s2) (quat (h other))\<rparr>))"
    using addState_run [OF assms(2), of E] s2 assms(1) by simp
  let ?h1 = "h(this := s2\<lparr>quat := q_mul E (quat s2) (quat (h other))\<rparr>)"
  have len2: "length (vec s2) = length (vec (h this))"
    using chiToQuat_vec(1) [OF s2] assms(2) by simp
  have keep: "\<And>i. i \<notin> {6, 7, 8} \<Longrightarrow> vec s2 ! i = ?v ! i"
    using chiToQuat_vec(2) [OF s2] by simp
  have ut: "utime s2 = utime (h this)"
    using chiToQuat_vec(3) [OF s2] by simp
  have len1: "length (vec (?h1 this)) = length (vec (?h1 other))"
    using assms(1,2) len2 by simp
  let ?h2 = "?h1(this := (?h1 this)\<lparr>vec := map2 (coeff_sub E) (vec (?h1 this)) (vec (?h1 other)),
          quat := q_mul E (q_inverse E (quat (?h1 other))) (quat (?h1 this))\<rparr>)"
  have run2: "subtractState E this other ?h1 = Some ?h2"
    using len1 by (rule subtractState_run)
  have nine: "9 \<le> length (vec (h this))"
    using assms(3) by (simp add: chi_ind_def)
  have a: "length (vec (?h2 this)) = length (vec (h this))"
    using assms(1,2) len2 by simp
  have b: "\<forall>i < length (vec (h this)). i \<notin> {6, 7, 8} \<longrightarrow>
           vec (?h2 this) ! i =
             coeff_sub E (coeff_add E (vec (h this) ! i) (vec (h other) ! i))
               (vec (h other) ! i)"
    using assms(1,2) len2 keep by simp
  have c: "\<forall>i \<in> {6, 7, 8}. vec (?h2 this) ! i = coeff_sub E (vec s2 ! i) (vec (h other) ! i)"
    using assms(1,2) len2 nine by simp
  have d: "quat (?h2 this) =
         q_mul E (q_inverse E (quat (h other))) (q_mul E (quat s2) (quat (h other)))"
    using assms(1) by simp
  have e: "utime (?h2 this) = utime (h this)"
    using ut by simp
  have f: "?h2 other = h other"
    using assms(1) by simp
  show ?thesis
    using s2 run1 run2 a b c d e f by blast
qed

theorem add_then_subtract_result_witness:
  "(0::nat) \<noteq> 1
   \<and> length (vec (two_objects half_state k_state 0))
       = length (vec (two_objects half_state k_state 1))
   \<and> chi_ind + 3 \<le> length (vec (two_objects half_state k_state 0))
   \<and> (\<exists>h1 h2. addState exact_env 0 1 (two_objects half_state k_state) = Some h1
          \<and> subtractState exact_env 0 1 h1 = Some h2
          \<and> utime (h2 0) = utime half_state \<and> h2 1 = k_state
          \<and> length (vec (h2 0)) = 15)"
proof -
  let ?h = "two_objects half_state k_state"
  have ne: "(0::nat) \<noteq> 1" by simp
  have len: "length (vec (?h 0)) = length (vec (?h 1))"
    by (simp add: two_objects_simps example_lengths)
  have nine: "chi_ind + 3 \<le> length (vec (?h 0))"
    by (simp add: two_objects_simps example_lengths chi_ind_def)
  show ?thesis
    using add_then_subtract_result [OF ne len nine, of exact_env] ne len nine
    by (auto simp: two_objects_simps example_lengths)
qed

section \<open>The constructors and the pose record\<close>

lemma pose_ctor_run:
  "RigidBodyState_pose uninit pose =
     Some \<lparr>quat = botDoubleToQuaternion (orientation pose),
           vec = [fst (rotation_rate pose), fst (snd (rotation_rate pose)),
                  snd (snd (rotation_rate pose)),
                  fst (vel pose), fst (snd (vel pose)), snd (snd (vel pose)),
                  Finite 0, Finite 0, Finite 0,
                  fst (pos pose), fst (snd (pos pose)), snd (snd (pos pose)),
                  fst (accel pose), fst (snd (accel pose)), snd (snd (accel pose))],
           utime = pose_utime pose\<rparr>"
  by (simp add: RigidBodyState_pose_def set_block3_def ind_defs Zero3_def Let_def
      split_beta upt_rec numeral_eq_Suc)

lemma getPose_run:
  assumes "length (vec s) = basic_num_states"
  shows "getPose s pose = Some (pose\<lparr>rotation_rate := (vec s ! 0, vec s ! 1, vec s ! 2),
      vel := (vec s ! 3, vec s ! 4, vec s ! 5),
      pos := (vec s ! 9, vec s ! 10, vec s ! 11),
      accel := (vec s ! 12, vec s ! 13, vec s ! 14),
      orientation := quaternionToBotDouble (quat s),
      pose_utime := utime s\<rparr>)"
  using assms
  by (simp add: getPose_def angularVelocity_def velocity_def position_def acceleration_def
      block3_def ind_defs Let_def numeral_2_eq_2)

lemma bot_round_trip: "botDoubleToQuaternion (quaternionToBotDouble q) = q"
  by (simp add: botDoubleToQuaternion_def quaternionToBotDouble_def)

text \<open>
  Claim C7.  For a state with 15 coefficients, \<open>getPose\<close> followed by the constructor
  from a pose record succeeds and gives a state with the same velocity, angular
  velocity, position, acceleration and timestamp, with chi zero (the vector is the
  original one with coefficients 6, 7, 8 set to zero), and with the orientation passed
  through \<open>quaternionToBotDouble\<close> and \<open>botDoubleToQuaternion\<close>, which gives the original
  orientation back.  Neither the record passed to \<open>getPose\<close> nor the initial contents of
  the new vector matter.
\<close>

theorem pose_round_trip:
  assumes "length (vec s) = basic_num_states"
  shows "\<exists>pose' s'. getPose s pose = Some pose'
     \<and> RigidBodyState_pose uninit pose' = Some s'
     \<and> velocity s' = velocity s \<and> velocity s \<noteq> None
     \<and> angularVelocity s' = angularVelocity s \<and> angularVelocity s \<noteq> None
     \<and> position s' = position s \<and> position s \<noteq> None
     \<and> acceleration s' = acceleration s \<and> acceleration s \<noteq> None
     \<and> utime s' = utime s
     \<and> chi s' = Some Zero3
     \<and> vec s' = (vec s)[6 := Finite 0, 7 := Finite 0, 8 := Finite 0]
     \<and> quat s' = botDoubleToQuaternion (quaternionToBotDouble (quat s))
     \<and> quat s' = quat s"
proof -
  let ?pose' = "pose\<lparr>rotation_rate := (vec s ! 0, vec s ! 1, vec s ! 2),
      vel := (vec s ! 3, vec s ! 4, vec s ! 5),
      pos := (vec s ! 9, vec s ! 10, vec s ! 11),
      accel := (vec s ! 12, vec s ! 13, vec s ! 14),
      orientation := quaternionToBotDouble (quat s),
      pose_utime := utime s\<rparr>"
  let ?s' = "\<lparr>quat = botDoubleToQuaternion (quaternionToBotDouble (quat s)),
           vec = [vec s ! 0, vec s ! 1, vec s ! 2, vec s ! 3, vec s ! 4, vec s ! 5,
                  Finite 0, Finite 0, Finite 0,
                  vec s ! 9, vec s ! 10, vec s ! 11, vec s ! 12, vec s ! 13, vec s ! 14],
           utime = utime s\<rparr>"
  have len: "length (vec s) = 15"
    using assms by (simp add: basic_num_states_def)
  have out: "getPose s pose = Some ?pose'"
    using assms by (rule getPose_run)
  have again: "RigidBodyState_pose uninit ?pose' = Some ?s'"
    by (simp add: pose_ctor_run)
  have v: "vec ?s' = (vec s)[6 := Finite 0, 7 := Finite 0, 8 := Finite 0]"
    by (subst (4) list15 [OF len]) simp
  have blocks: "velocity ?s' = velocity s" "velocity s \<noteq> None"
    "angularVelocity ?s' = angularVelocity s" "angularVelocity s \<noteq> None"
    "position ?s' = position s" "position s \<noteq> None"
    "acceleration ?s' = acceleration s" "acceleration s \<noteq> None"
    using len
    by (simp_all add: velocity_def angularVelocity_def position_def acceleration_def
        block3_def ind_defs numeral_2_eq_2)
  have c: "chi ?s' = Some Zero3"
    by (simp add: chi_zero_iff)
  have q: "quat ?s' = quat s"
    by (simp add: bot_round_trip)
  show ?thesis
    using out again v blocks c q
    by (intro exI[of _ ?pose'] exI[of _ ?s']) simp
qed

theorem pose_round_trip_witness:
  "length (vec chi_z_state) = basic_num_states
   \<and> (\<exists>pose' s'.
         getPose chi_z_state \<lparr>pose_utime = 7, pos = UnitX, vel = UnitX,
            orientation = (NaN, NaN, NaN, NaN), rotation_rate = UnitX, accel = UnitX\<rparr>
           = Some pose'
       \<and> RigidBodyState_pose (\<lambda>i. NaN) pose' = Some s'
       \<and> chi s' = Some Zero3 \<and> utime s' = utime chi_z_state
       \<and> quat s' = quat chi_z_state)"
proof -
  have len: "length (vec chi_z_state) = basic_num_states"
    by (simp add: example_lengths basic_num_states_def)
  show ?thesis
    using pose_round_trip [OF len, of "\<lparr>pose_utime = 7, pos = UnitX, vel = UnitX,
            orientation = (NaN, NaN, NaN, NaN), rotation_rate = UnitX, accel = UnitX\<rparr>"
          "\<lambda>i. NaN"] len
    by blast
qed

section \<open>The chi slot stays zero\<close>

lemma chi_examples: "chi zero_state = Some Zero3" "chi half_state = Some Zero3"
  "chi k_state = Some Zero3" "chi i_state = Some Zero3"
  by (simp_all add: chi_zero_iff zero_state_def half_state_def k_state_def i_state_def)

lemma addState_keeps_zero_chi:
  assumes "zero_arith E"
    and "length (vec (h this)) = length (vec (h other))"
    and "chi (h this) = Some Zero3" and "chi (h other) = Some Zero3"
  shows "\<exists>h'. addState E this other h = Some h' \<and> chi (h' this) = Some Zero3"
proof -
  let ?v = "map2 (coeff_add E) (vec (h this)) (vec (h other))"
  let ?s1 = "(h this)\<lparr>vec := ?v\<rparr>"
  have z: "chi ?s1 = Some Zero3"
    using assms by (simp add: chi_zero_iff zero_arith_def)
  have "\<not> dgt (v_norm E Zero3) chi_tolerance"
    using assms(1) by (simp add: zero_arith_def)
  with z have "chiToQuat E ?s1 = Some ?s1"
    by (rule chiToQuat_skip)
  then have "addState E this other h
      = Some (h(this := ?s1\<lparr>quat := q_mul E (quat ?s1)
                  (quat ((h(this := ?s1)) other))\<rparr>))"
    using assms(2) by (simp add: addState_def vec_add_Some Let_def)
  moreover have "chi (?s1\<lparr>quat := q_mul E (quat ?s1) (quat ((h(this := ?s1)) other))\<rparr>)
      = Some Zero3"
    using z by (simp only: chi_quat_update)
  ultimately show ?thesis by simp
qed

lemma subtractState_keeps_zero_chi:
  assumes "zero_arith E"
    and "length (vec (h this)) = length (vec (h other))"
    and "chi (h this) = Some Zero3" and "chi (h other) = Some Zero3"
  shows "\<exists>h'. subtractState E this other h = Some h' \<and> chi (h' this) = Some Zero3"
proof -
  let ?v = "map2 (coeff_sub E) (vec (h this)) (vec (h other))"
  let ?s1 = "(h this)\<lparr>vec := ?v\<rparr>"
  have z: "chi ?s1 = Some Zero3"
    using assms by (simp add: chi_zero_iff zero_arith_def)
  have "subtractState E this other h
      = Some (h(this := ?s1\<lparr>quat := q_mul E (q_inverse E (quat ((h(this := ?s1)) other)))
                 (quat ?s1)\<rparr>))"
    using assms(2) by (simp add: subtractState_def vec_sub_Some Let_def)
  moreover have "chi (?s1\<lparr>quat := q_mul E (q_inverse E (quat ((h(this := ?s1)) other)))
                 (quat ?s1)\<rparr>) = Some Zero3"
    using z by (simp only: chi_quat_update)
  ultimately show ?thesis by simp
qed

lemma dim_ctor_zero_chi:
  "9 \<le> n \<Longrightarrow> \<exists>s. RigidBodyState_dim n = Some s \<and> chi s = Some Zero3"
  by (simp add: RigidBodyState_dim_def chi_zero_iff)

lemma default_ctor_zero_chi: "\<exists>s. RigidBodyState_default = Some s \<and> chi s = Some Zero3"
  by (simp add: RigidBodyState_default_def basic_num_states_def dim_ctor_zero_chi)

lemma vec_ctor_zero_chi:
  assumes "zero_arith E" and "length arg_vec = basic_num_states"
    and "block3 arg_vec chi_ind = Some Zero3"
  shows "\<exists>s. RigidBodyState_vec E arg_vec = Some s \<and> chi s = Some Zero3"
proof -
  let ?s = "\<lparr>quat = Identity, vec = arg_vec, utime = 0\<rparr>"
  have z: "chi ?s = Some Zero3"
    using assms(3) by (simp add: chi_def)
  have "\<not> dgt (v_norm E Zero3) chi_tolerance"
    using assms(1) by (simp add: zero_arith_def)
  with z have "chiToQuat E ?s = Some ?s"
    by (rule chiToQuat_skip)
  then show ?thesis
    using assms(2) z by (simp add: RigidBodyState_vec_def chi_def)
qed

lemma vec_quat_ctor_zero_chi:
  assumes "length arg_vec = basic_num_states" and "block3 arg_vec chi_ind = Some Zero3"
  shows "\<exists>s. RigidBodyState_vec_quat arg_vec arg_quat = Some s \<and> chi s = Some Zero3"
  using assms by (simp add: RigidBodyState_vec_quat_def chi_def)

lemma pose_ctor_zero_chi:
  "\<exists>s. RigidBodyState_pose uninit pose = Some s \<and> chi s = Some Zero3"
  by (simp add: pose_ctor_run chi_zero_iff)

lemma setQuatEulerAngles_chi: "chi (setQuatEulerAngles E eulers s) = chi s"
  by (simp add: setQuatEulerAngles_def chi_def split_beta)

lemma quatToChi_i_state:
  "Option.bind (quatToChi exact_env i_state) chi = Some (Finite pi, Finite 0, Finite 0)"
  by (simp add: quatToChi_def i_state_def zero_state_def set_block3_def chi_ind_def
      chi_def block3_def exact_env_def exact_subtractQuats_def exact_inverse_def
      exact_mul_def exact_norm_def exact_div_def exact_scale_def Identity_def dsub_def
      canonical_def first_nonzero_negative_def Let_def)

text \<open>
  Claim C5 says that every public operation other than \<open>chiToQuat\<close>, \<open>quatToChi\<close>
  included, leaves the chi slot zero when it was zero before.  \<open>quatToChi\<close> does not: it
  stores \<open>subtractQuats(quat, Identity)\<close> in the chi slot.  For the state with all
  coefficients zero and the orientation \<open>(0, 1, 0, 0)\<close>, the half turn about X, the chi
  slot is \<open>(pi, 0, 0)\<close> afterwards.
\<close>

theorem quatToChi_counterexample:
  "chi i_state = Some Zero3
   \<and> Option.bind (quatToChi exact_env i_state) chi = Some (Finite pi, Finite 0, Finite 0)
   \<and> (Finite pi, Finite 0, Finite 0) \<noteq> Zero3"
  by (simp add: chi_examples quatToChi_i_state Zero3_def)

text \<open>
  Claim C5, amended.  With the three facts \<open>zero_arith\<close> about zero: when the chi slots
  of the receiver and of the argument are zero, they are zero in the receiver after
  \<open>addState\<close> and after \<open>subtractState\<close> (also when both are the same object); the
  constructor with a dimension of at least 9, the default constructor and the constructor
  from a pose record build a state with chi zero; the two constructors from a vector do
  so when the chi slot of that vector is zero; \<open>setQuatEulerAngles\<close> does not change the
  chi slot.  The remaining operations (\<open>getEulerAngles\<close>, \<open>getPose\<close>, \<open>hasNan\<close>) return
  no state.  \<open>quatToChi\<close> is left out.
\<close>

theorem zero_chi_preserved:
  assumes "zero_arith E"
  shows "(length (vec (h this)) = length (vec (h other))
            \<and> chi (h this) = Some Zero3 \<and> chi (h other) = Some Zero3 \<longrightarrow>
          (\<exists>h'. addState E this other h = Some h' \<and> chi (h' this) = Some Zero3)
          \<and> (\<exists>h'. subtractState E this other h = Some h' \<and> chi (h' this) = Some Zero3))
       \<and> (9 \<le> n \<longrightarrow> (\<exists>s. RigidBodyState_dim n = Some s \<and> chi s = Some Zero3))
       \<and> (\<exists>s. RigidBodyState_default = Some s \<and> chi s = Some Zero3)
       \<and> (length arg_vec = basic_num_states \<and> block3 arg_vec chi_ind = Some Zero3 \<longrightarrow>
          (\<exists>s. RigidBodyState_vec E arg_vec = Some s \<and> chi s = Some Zero3)
          \<and> (\<exists>s. RigidBodyState_vec_quat arg_vec arg_quat = Some s \<and> chi s = Some Zero3))
       \<and> (\<exists>s. RigidBodyState_pose uninit pose = Some s \<and> chi s = Some Zero3)
       \<and> chi (setQuatEulerAngles E eulers s) = chi s"
proof (intro conjI impI)
  assume a: "length (vec (h this)) = length (vec (h other))
            \<and> chi (h this) = Some Zero3 \<and> chi (h other) = Some Zero3"
  show "\<exists>h'. addState E this other h = Some h' \<and> chi (h' this) = Some Zero3"
    using assms a by (intro addState_keeps_zero_chi) simp_all
  show "\<exists>h'. subtractState E this other h = Some h' \<and> chi (h' this) = Some Zero3"
    using assms a by (intro subtractState_keeps_zero_chi) simp_all
next
  assume "9 \<le> n"
  then show "\<exists>s. RigidBodyState_dim n = Some s \<and> chi s = Some Zero3"
    by (rule dim_ctor_zero_chi)
next
  show "\<exists>s. RigidBodyState_default = Some s \<and> chi s = Some Zero3"
    by (rule default_ctor_zero_chi)
next
  assume b: "length arg_vec = basic_num_states \<and> block3 arg_vec chi_ind = Some Zero3"
  show "\<exists>s. RigidBodyState_vec E arg_vec = Some s \<and> chi s = Some Zero3"
    using assms b by (intro vec_ctor_zero_chi) simp_all
  show "\<exists>s. RigidBodyState_vec_quat arg_vec arg_quat = Some s \<and> chi s = Some Zero3"
    using b by (intro vec_quat_ctor_zero_chi) simp_all
next
  show "\<exists>s. RigidBodyState_pose uninit pose = Some s \<and> chi s = Some Zero3"
    by (rule pose_ctor_zero_chi)
next
  show "chi (setQuatEulerAngles E eulers s) = chi s"
    by (rule setQuatEulerAngles_chi)
qed

theorem zero_chi_preserved_witness:
  "zero_arith exact_env
   \<and> length (vec (two_objects half_state k_state 0))
       = length (vec (two_objects half_state k_state 1))
   \<and> chi (two_objects half_state k_state 0) = Some Zero3
   \<and> chi (two_objects half_state k_state 1) = Some Zero3
   \<and> (\<exists>h'. addState exact_env 0 1 (two_objects half_state k_state) = Some h'
          \<and> chi (h' 0) = Some Zero3)
   \<and> (\<exists>h'. subtractState exact_env 0 1 (two_objects half_state k_state) = Some h'
          \<and> chi (h' 0) = Some Zero3)
   \<and> (9::int) \<le> 15
   \<and> (\<exists>s. RigidBodyState_dim 15 = Some s \<and> chi s = Some Zero3)
   \<and> length (replicate 15 (Finite 0)) = basic_num_states
   \<and> block3 (replicate 15 (Finite 0)) chi_ind = Some Zero3
   \<and> (\<exists>s. RigidBodyState_vec exact_env (replicate 15 (Finite 0)) = Some s
          \<and> chi s = Some Zero3)"
proof -
  let ?h = "two_objects half_state k_state"
  have pre: "length (vec (?h 0)) = length (vec (?h 1))"
    "chi (?h 0) = Some Zero3" "chi (?h 1) = Some Zero3"
    by (simp_all add: two_objects_simps example_lengths chi_examples)
  have v: "length (replicate 15 (Finite 0)) = basic_num_states"
    "block3 (replicate 15 (Finite 0)) chi_ind = Some Zero3"
    by (simp_all add: basic_num_states_def block3_def chi_ind_def Zero3_def)
  show ?thesis
    using zero_chi_preserved [OF zero_arith_exact, of ?h 0 1 15 "replicate 15 (Finite 0)"]
      zero_arith_exact pre v
    by simp
qed

section \<open>subtractQuats\<close>


















section \<open>Euler angles\<close>

lemma sqrt_hundredth: "sqrt (1 / 100) = 1 / 10"
  by (rule real_sqrt_unique) (simp_all add: power2_eq_square)

lemma tenth_lt_half_pi: "(1 / 10 :: real) < pi / 2" "- (pi / 2) < (1 / 10 :: real)"
  using pi_ge_two by simp_all

lemma cos_tenth_pos: "0 < cos (1 / 10 :: real)"
  using tenth_lt_half_pi by (intro cos_gt_zero_pi) simp_all

lemma sin_tenth: "2 * sin (1 / 20 :: real) * cos (1 / 20) = sin (1 / 10)"
  using sin_double [of "1 / 20 :: real"] by simp

lemma cos_tenth: "1 - 2 * sin (1 / 20 :: real) * sin (1 / 20) = cos (1 / 10)"
  using cos_double_sin [of "1 / 20 :: real"] by (simp add: power2_eq_square)

lemma arctan_tenth: "arctan (sin (1 / 10 :: real) / cos (1 / 10)) = 1 / 10"
  using arctan_tan [of "1 / 10 :: real"] tenth_lt_half_pi by (simp add: tan_def)

lemma fold_tenth:
  "chiToQuat exact_env chi_tenth_state =
     Some (zero_state\<lparr>quat :=
       Quaterniond (Finite (cos (1 / 20))) (Finite 0) (Finite 0) (Finite (sin (1 / 20)))\<rparr>)"
  by (simp add: chiToQuat_def chi_tenth_state_def zero_state_def vec15 chi_def block3_def
      set_block3_def chi_ind_def Zero3_def exact_env_def exact_norm_def exact_div_def
      exact_of_aa_def exact_scale_def exact_mul_def Identity_def dsub_def sqrt_hundredth
      chi_tolerance_def Let_def)

lemma matrix_tenth:
  "exact_matrix (Quaterniond (Finite (cos (1 / 20))) (Finite 0) (Finite 0)
      (Finite (sin (1 / 20)))) =
     ((Finite (cos (1 / 10)), Finite (- sin (1 / 10)), Finite 0),
      (Finite (sin (1 / 10)), Finite (cos (1 / 10)), Finite 0),
      (Finite 0, Finite 0, Finite 1))"
  using sin_tenth cos_tenth
  by (simp add: exact_matrix_def dsub_def Let_def mult.commute)

lemma datan2_tenth: "datan2 (Finite (sin (1 / 10))) (Finite (cos (1 / 10))) = Finite (1 / 10)"
  by (simp add: cos_tenth_pos arctan_tenth)

lemma euler_tenth:
  "exact_euler210
     ((Finite (cos (1 / 10)), Finite (- sin (1 / 10)), Finite 0),
      (Finite (sin (1 / 10)), Finite (cos (1 / 10)), Finite 0),
      (Finite 0, Finite 0, Finite 1)) = (Finite (1 / 10), Finite 0, Finite 0)"
proof -
  have one: "cos (1 / 10 :: real) * cos (1 / 10) + sin (1 / 10) * sin (1 / 10) = 1"
    using sin_cos_squared_add2 [of "1 / 10 :: real"] by (simp add: power2_eq_square)
  show ?thesis
    unfolding exact_euler210_def prod.case datan2_tenth
    by (simp add: dsub_def Let_def one)
qed

lemma set_tenth:
  "quat (setQuatEulerAngles exact_env (Finite (1 / 10), Finite 0, Finite 0) zero_state)
     = Quaterniond (Finite (cos (1 / 20))) (Finite (sin (1 / 20))) (Finite 0) (Finite 0)"
  by (simp add: setQuatEulerAngles_def exact_env_def exact_of_aa_def exact_scale_def
      exact_mul_def UnitX_def UnitY_def UnitZ_def dsub_def Let_def)

text \<open>
  Claim C6 says that \<open>getEulerAngles\<close> returns (roll, pitch, yaw) in that order, as the
  comment above the method does.  The method returns the result of
  \<open>eulerAngles(2, 1, 0)\<close> as it is, and that is (yaw, pitch, roll): for the state with
  identity orientation and chi \<open>(0, 0, 1/10)\<close>, after \<open>chiToQuat\<close>, coefficient 0 is
  \<open>1/10\<close> and coefficient 2 is \<open>0\<close>.  \<open>setQuatEulerAngles\<close> reads its argument the other
  way round: given \<open>(1/10, 0, 0)\<close> it sets the rotation by \<open>1/10\<close> about X.
\<close>

theorem getEulerAngles_yaw_first:
  "map_option (getEulerAngles exact_env) (chiToQuat exact_env chi_tenth_state)
     = Some (Finite (1 / 10), Finite 0, Finite 0)
   \<and> map_option quat (chiToQuat exact_env chi_tenth_state)
     = Some (Quaterniond (Finite (cos (1 / 20))) (Finite 0) (Finite 0) (Finite (sin (1 / 20))))
   \<and> quat (setQuatEulerAngles exact_env (Finite (1 / 10), Finite 0, Finite 0) zero_state)
     = Quaterniond (Finite (cos (1 / 20))) (Finite (sin (1 / 20))) (Finite 0) (Finite 0)"
proof -
  have "getEulerAngles exact_env (zero_state\<lparr>quat :=
       Quaterniond (Finite (cos (1 / 20))) (Finite 0) (Finite 0) (Finite (sin (1 / 20)))\<rparr>)
     = (Finite (1 / 10), Finite 0, Finite 0)"
    by (simp add: getEulerAngles_def exact_env_def matrix_tenth euler_tenth)
  then show ?thesis
    by (simp add: fold_tenth set_tenth)
qed

end
